theory Spec2Isabelle
  imports Main "HOL-Library.Sublist" "HOL-Library.Multiset" "HOL-Library.Product_Lexorder"
begin

section \<open>Python strings\<close>

text \<open>
  A Python \<open>str\<close> is modelled as a \<open>string\<close> whose characters are code points:
  the \<open>char\<close> with code \<open>n\<close> stands for U+00\<open>n\<close>, so the model covers the
  texts made of code points below 256. \<open>length\<close> counts code points, as \<open>len\<close> does.
\<close>

datatype py_error = ValueError | IndexError | AttributeError | CsvError

definition py_isspace :: "char \<Rightarrow> bool" where
  \<comment> \<open>the code points below 256 that \<open>str.isspace\<close>, \<open>str.strip()\<close>, \<open>str.split()\<close>
      and the regular expression \<open>\s\<close> treat as whitespace\<close>
  "py_isspace c = (let n = (of_char c :: nat) in
     (9 \<le> n \<and> n \<le> 13) \<or> (28 \<le> n \<and> n \<le> 32) \<or> n = 133 \<or> n = 160)"

definition ascii_digit :: "char \<Rightarrow> bool" where
  \<comment> \<open>the decimal digits \<open>0\<close> to \<open>9\<close>: what \<open>int()\<close> and the regular expression \<open>\d\<close>
      accept among the code points below 256\<close>
  "ascii_digit c = (let n = (of_char c :: nat) in 48 \<le> n \<and> n \<le> 57)"

definition py_isdigit_char :: "char \<Rightarrow> bool" where
  \<comment> \<open>\<open>str.isdigit\<close> holds for Numeric_Type Decimal and Digit: below 256 these are
      \<open>0\<close> to \<open>9\<close> and the superscripts U+00B2, U+00B3 and U+00B9\<close>
  "py_isdigit_char c = (let n = (of_char c :: nat) in
     (48 \<le> n \<and> n \<le> 57) \<or> n = 178 \<or> n = 179 \<or> n = 185)"

definition py_isdigit :: "string \<Rightarrow> bool" where
  \<comment> \<open>\<open>s.isdigit()\<close>: at least one character, and all of them digits\<close>
  "py_isdigit s = (s \<noteq> [] \<and> list_all py_isdigit_char s)"

definition digit_val :: "char \<Rightarrow> nat" where
  "digit_val c = of_char c - 48"

definition decimal_value :: "string \<Rightarrow> nat" where
  "decimal_value s = foldl (\<lambda>acc c. 10 * acc + digit_val c) 0 s"

definition py_int :: "string \<Rightarrow> py_error + int" where
  \<comment> \<open>\<open>int(s)\<close> on a text of digit characters, the only texts the program passes to it:
      the decimal value when every character is one of \<open>0\<close> to \<open>9\<close>, ValueError
      otherwise (the superscript digits are not decimal literals). The bound that newer
      interpreters put on the length of a decimal literal is left out.\<close>
  "py_int s = (if s \<noteq> [] \<and> list_all ascii_digit s then Inr (int (decimal_value s))
               else Inl ValueError)"

definition py_strip :: "string \<Rightarrow> string" where
  \<comment> \<open>\<open>s.strip()\<close>\<close>
  "py_strip s = rev (dropWhile py_isspace (rev (dropWhile py_isspace s)))"

function py_replace :: "string \<Rightarrow> string \<Rightarrow> string \<Rightarrow> string" where
  \<comment> \<open>\<open>s.replace(old, new)\<close> for a non-empty \<open>old\<close> (it is a literal at every call):
      the non-overlapping occurrences, left to right\<close>
  "py_replace old new [] = []"
| "py_replace old new (c # cs) =
     (if old \<noteq> [] \<and> prefix old (c # cs)
      then new @ py_replace old new (drop (length old) (c # cs))
      else c # py_replace old new cs)"
  by pat_completeness auto
termination
  by (relation "measure (\<lambda>(old, new, s). length s)") (auto simp: Suc_le_eq)

fun py_split_on :: "char \<Rightarrow> string \<Rightarrow> string list" where
  \<comment> \<open>\<open>s.split(sep)\<close> for a separator of one character: empty fields are kept\<close>
  "py_split_on sep [] = [[]]"
| "py_split_on sep (c # cs) =
     (if c = sep then [] # py_split_on sep cs
      else (case py_split_on sep cs of
              [] \<Rightarrow> [[c]]
            | w # ws \<Rightarrow> (c # w) # ws))"

fun split_ws_from :: "string \<Rightarrow> string \<Rightarrow> string list" where
  \<comment> \<open>the scan of \<open>s.split()\<close>: \<open>cur\<close> is the token being read\<close>
  "split_ws_from cur [] = (if cur = [] then [] else [cur])"
| "split_ws_from cur (c # cs) =
     (if py_isspace c
      then (if cur = [] then split_ws_from [] cs else cur # split_ws_from [] cs)
      else split_ws_from (cur @ [c]) cs)"

definition py_split :: "string \<Rightarrow> string list" where
  \<comment> \<open>\<open>s.split()\<close>: the maximal runs of non-whitespace characters\<close>
  "py_split s = split_ws_from [] s"

definition py_contains :: "string \<Rightarrow> string \<Rightarrow> bool" where
  \<comment> \<open>\<open>pat in s\<close>\<close>
  "py_contains pat s = sublist pat s"

definition py_zfill2 :: "string \<Rightarrow> string" where
  \<comment> \<open>\<open>s.zfill(2)\<close>: zeros go after a leading sign\<close>
  "py_zfill2 s =
     (if length s \<ge> 2 then s
      else (case s of
              [] \<Rightarrow> ''00''
            | c # cs \<Rightarrow> (if c = CHR ''+'' \<or> c = CHR ''-'' then c # ''0'' @ cs
                        else ''0'' @ s)))"

section \<open>Transactions and table rows\<close>

text \<open>
  Both scraper modules declare the same \<open>Transaction\<close> dataclass. The text fields are of
  type \<open>'s\<close>: \<open>string\<close> on the HTML path, \<open>string option\<close> on the CSV path, where a field
  of a short row is \<open>None\<close>.
\<close>

record 's Transaction =
  symbol :: 's
  order_date :: 's
  transaction_date :: 's
  action :: 's
  amount :: int
  price :: 's
  status :: string

text \<open>
  The documents are read through BeautifulSoup, whose query results are the inputs here:
  a cell is the list of its text nodes in document order, a row the list of its
  \<open>td\<close>/\<open>th\<close> cells, a table the list of its \<open>tr\<close> rows.
\<close>

type_synonym cell = "string list"
type_synonym row = "cell list"
type_synonym table = "row list"

definition get_text_strip :: "cell \<Rightarrow> string" where
  \<comment> \<open>\<open>cell.get_text(strip=True)\<close>: every text node stripped, the empty ones dropped,
      the rest joined without a separator\<close>
  "get_text_strip c = concat (filter (\<lambda>s. s \<noteq> []) (map py_strip c))"

definition parse_amount :: "string \<Rightarrow> py_error + int" where
  \<comment> \<open>\<open>int(amount_text) if amount_text.isdigit() else 0\<close>\<close>
  "parse_amount amount_text = (if py_isdigit amount_text then py_int amount_text else Inr 0)"

definition parse_action :: "string \<Rightarrow> string \<times> string" where
  \<comment> \<open>the action and the status read from the action cell's text\<close>
  "parse_action action_text =
     (if py_contains ''Canceled'' action_text
      then ((if py_split action_text \<noteq> [] then hd (py_split action_text) else action_text),
            ''Canceled'')
      else (action_text, ''Completed''))"

definition parse_row_try :: "row \<Rightarrow> py_error + string Transaction" where
  \<comment> \<open>the body of the \<open>try\<close> in \<open>_parse_transaction_table\<close>, for one row's cells\<close>
  "parse_row_try cells =
     (case cells of
        c0 # c1 # c2 # c3 # c4 # c5 # _ \<Rightarrow>
          (let (act, st) = parse_action (get_text_strip c3);
               amount_text = py_replace '','' '''' (get_text_strip c4)
           in (case parse_amount amount_text of
                 Inl e \<Rightarrow> Inl e
               | Inr n \<Rightarrow> Inr \<lparr> symbol = get_text_strip c0,
                               order_date = get_text_strip c1,
                               transaction_date = get_text_strip c2,
                               action = act,
                               amount = n,
                               price = get_text_strip c5,
                               status = st \<rparr>))
      | _ \<Rightarrow> Inl IndexError)"

definition parse_row :: "row \<Rightarrow> string Transaction list" where
  \<comment> \<open>what one row appends: nothing when it has fewer than 6 cells, nothing when the
      body raises (\<open>except (ValueError, IndexError): continue\<close>; the body raises
      nothing else), one record otherwise\<close>
  "parse_row cells =
     (if length cells \<ge> 6
      then (case parse_row_try cells of Inr t \<Rightarrow> [t] | Inl e \<Rightarrow> [])
      else [])"

definition parse_transaction_table :: "table \<Rightarrow> string Transaction list" where
  \<comment> \<open>\<open>_parse_transaction_table\<close>, the same in both modules: \<open>rows[1:]\<close> skips the header\<close>
  "parse_transaction_table rows = foldl (\<lambda>transactions r. transactions @ parse_row r) [] (drop 1 rows)"

section \<open>The deduplicator\<close>

definition identity_key :: "'s Transaction \<Rightarrow> 's \<times> 's \<times> 's \<times> int" where
  "identity_key t = (symbol t, order_date t, action t, amount t)"

fun dedup_loop ::
  "('s \<times> 's \<times> 's \<times> int) set \<Rightarrow> 's Transaction list \<Rightarrow> 's Transaction list \<Rightarrow> 's Transaction list" where
  \<comment> \<open>the loop at the end of \<open>parse_transactions\<close>, with its two variables \<open>seen\<close> and
      \<open>unique_transactions\<close>\<close>
  "dedup_loop seen unique_transactions [] = unique_transactions"
| "dedup_loop seen unique_transactions (t # ts) =
     (if identity_key t \<notin> seen
      then dedup_loop (insert (identity_key t) seen) (unique_transactions @ [t]) ts
      else dedup_loop seen unique_transactions ts)"

definition dedup :: "'s Transaction list \<Rightarrow> 's Transaction list" where
  "dedup transactions = dedup_loop {} [] transactions"

definition example_buy_first :: "string Transaction" where
  "example_buy_first = \<lparr> symbol = ''AAPL'', order_date = ''7/9/25 10:45a ET'',
     transaction_date = ''7/9/25 10:46a ET'', action = ''Buy'', amount = 100,
     price = ''$150.00'', status = ''Completed'' \<rparr>"

definition example_buy_second :: "string Transaction" where
  "example_buy_second = \<lparr> symbol = ''AAPL'', order_date = ''7/9/25 10:45a ET'',
     transaction_date = ''7/9/25 10:46a ET'', action = ''Buy'', amount = 100,
     price = ''$150.01'', status = ''Completed'' \<rparr>"

definition example_row :: row where
  \<comment> \<open>the data row of the end-to-end example, with a seventh cell\<close>
  "example_row = [[''AAPL''], [''7/9/25 10:45a ET''], [''7/9/25 10:46a ET''], ['' Buy ''],
                  [''100''], [''$150.00''], [''extra'']]"

definition example_short_row :: row where
  "example_short_row = [[''AAPL''], [''7/9/25 10:45a ET''], [''7/9/25 10:46a ET''], [''Buy''],
                        [''100'']]"

definition example_canceled_row :: row where
  "example_canceled_row = [[''AAPL''], [''7/9/25 10:45a ET''], [''N/A''],
                           [''  Sell  Canceled ''], [''1,000''], [''N/A'']]"

definition example_superscript_row :: row where
  \<comment> \<open>the amount cell holds the one character U+00B2, SUPERSCRIPT TWO\<close>
  "example_superscript_row = [[''AAPL''], [''7/9/25 10:45a ET''], [''7/9/25 10:46a ET''],
                              [''Buy''], [[CHR 0xB2]], [''$150.00'']]"

section \<open>The transaction table locator\<close>

text \<open>
  A parsed page is given by the results of the BeautifulSoup queries the two locators
  make on it: the text of each \<open>script\<close> element (\<open>None\<close> when it has no single
  string), the first table whose class attribute is \<open>table table--primary ranking\<close>,
  the first table and the \<open>div\<close>s whose class matches the loose pattern over
  \<open>transaction\<close>, \<open>order\<close>, \<open>trade\<close>, the elements with \<open>is="vse-module"\<close>, and the
  tables of class \<open>table--primary\<close> or \<open>ranking\<close>.
\<close>

record vse_module =
  view :: "string option"
  primary_tables :: "table list"
  all_tables :: "table list"

type_synonym div_element = "string list"

record soup =
  script_strings :: "string option list"
  exact_class_table :: "table option"
  loose_class_table :: "table option"
  loose_class_divs :: "div_element list"
  vse_modules :: "vse_module list"
  primary_or_ranking_tables :: "table list"

definition py_lower_char :: "char \<Rightarrow> char" where
  \<comment> \<open>\<open>str.lower\<close> on a code point below 256\<close>
  "py_lower_char c = (let n = (of_char c :: nat) in
     if (65 \<le> n \<and> n \<le> 90) \<or> (192 \<le> n \<and> n \<le> 222 \<and> n \<noteq> 215) then char_of (n + 32) else c)"

definition py_lower :: "string \<Rightarrow> string" where
  "py_lower s = map py_lower_char s"

definition first_brace_object :: "string \<Rightarrow> string option" where
  \<comment> \<open>\<open>re.search(r'({.*?})', s, re.DOTALL)\<close>: from the first opening brace to the first
      closing brace after it\<close>
  "first_brace_object s =
     (case dropWhile (\<lambda>c. c \<noteq> CHR 0x7B) s of
        [] \<Rightarrow> None
      | b # r \<Rightarrow> (if CHR 0x7D \<in> set r
                  then Some (b # takeWhile (\<lambda>c. c \<noteq> CHR 0x7D) r @ [CHR 0x7D])
                  else None))"

definition parse_transaction_json :: "'j \<Rightarrow> string Transaction list" where
  \<comment> \<open>\<open>_parse_transaction_json\<close>: not implemented in the source, returns the empty list\<close>
  "parse_transaction_json data = []"

definition parse_transaction_div :: "div_element \<Rightarrow> string Transaction list" where
  \<comment> \<open>\<open>_parse_transaction_div\<close>: not implemented in the source, returns the empty list\<close>
  "parse_transaction_div d = []"

definition script_step ::
  "(string \<Rightarrow> 'j option) \<Rightarrow> string Transaction list \<Rightarrow> string option \<Rightarrow> string Transaction list" where
  \<comment> \<open>one round of the loop over the scripts; \<open>json_loads\<close> is \<open>json.loads\<close>, \<open>None\<close> where
      it raises, and the handler of the \<open>try\<close> goes on to the next script\<close>
  "script_step json_loads transactions script =
     (case script of
        None \<Rightarrow> transactions
      | Some str \<Rightarrow>
          (if str = [] then transactions
           else if py_contains ''transactions'' (py_lower str) \<or> py_contains ''orders'' (py_lower str)
           then (case first_brace_object str of
                   None \<Rightarrow> transactions
                 | Some json_str \<Rightarrow>
                     (case json_loads json_str of
                        None \<Rightarrow> transactions
                      | Some data \<Rightarrow> transactions @ parse_transaction_json data))
           else transactions))"

definition module_step ::
  "(vse_module \<Rightarrow> table list) \<Rightarrow> string Transaction list \<Rightarrow> vse_module \<Rightarrow> string Transaction list" where
  \<comment> \<open>one round of the loop over the modules; \<open>tables_of\<close> is the query made inside the
      module\<close>
  "module_step tables_of transactions module =
     (if view module = Some ''transactions''
      then foldl (\<lambda>acc t. acc @ parse_transaction_table t) transactions (tables_of module)
      else transactions)"

definition mw_parse_transactions :: "(string \<Rightarrow> 'j option) \<Rightarrow> soup \<Rightarrow> string Transaction list" where
  \<comment> \<open>\<open>MarketWatchScraper._parse_transactions\<close> (its debug printing left out): the
      single-portfolio path, which returns the candidates as they are\<close>
  "mw_parse_transactions json_loads page =
     (let transactions = foldl (script_step json_loads) [] (script_strings page);
          found = (case exact_class_table page of
                     Some t \<Rightarrow> Some t
                   | None \<Rightarrow> loose_class_table page);
          transactions = (case found of
                            Some t \<Rightarrow> transactions @ parse_transaction_table t
                          | None \<Rightarrow> transactions);
          transactions = foldl (\<lambda>acc d. acc @ parse_transaction_div d) transactions
                           (loose_class_divs page);
          transactions = foldl (module_step all_tables) transactions (vse_modules page)
      in transactions)"

definition looks_like_transactions :: "table \<Rightarrow> bool" where
  \<comment> \<open>the header sniff: the first row has a cell containing \<open>Symbol\<close> and one containing
      \<open>Order\<close>\<close>
  "looks_like_transactions t =
     (case t of
        [] \<Rightarrow> False
      | header_row # _ \<Rightarrow>
          (let headers = map get_text_strip header_row
           in list_ex (py_contains ''Symbol'') headers \<and> list_ex (py_contains ''Order'') headers))"

definition candidate_transactions :: "soup \<Rightarrow> string Transaction list" where
  \<comment> \<open>\<open>CompetitionScraper.parse_transactions\<close> up to its deduplication\<close>
  "candidate_transactions page =
     (let transactions = foldl (module_step primary_tables) [] (vse_modules page);
          transactions = foldl (\<lambda>acc t. if looks_like_transactions t
                                         then acc @ parse_transaction_table t else acc)
                           transactions (primary_or_ranking_tables page)
      in transactions)"

definition parse_transactions :: "soup \<Rightarrow> string Transaction list" where
  \<comment> \<open>\<open>CompetitionScraper.parse_transactions\<close>: the multi-competitor path\<close>
  "parse_transactions page = dedup (candidate_transactions page)"

text \<open>
  The strategies one by one, each a function of its own query results only. These are the
  independent functions from a document to its candidates that the specification speaks
  of; the locators above are compared with their concatenation.
\<close>

definition script_json_strategy :: "(string \<Rightarrow> 'j option) \<Rightarrow> string option list \<Rightarrow> string Transaction list" where
  "script_json_strategy json_loads scripts = concat (map (script_step json_loads []) scripts)"

definition class_table_strategy :: "table option \<Rightarrow> table option \<Rightarrow> string Transaction list" where
  "class_table_strategy exact loose =
     (case exact of
        Some t \<Rightarrow> parse_transaction_table t
      | None \<Rightarrow> (case loose of Some t \<Rightarrow> parse_transaction_table t | None \<Rightarrow> []))"

definition div_strategy :: "div_element list \<Rightarrow> string Transaction list" where
  "div_strategy divs = concat (map parse_transaction_div divs)"

definition module_strategy :: "(vse_module \<Rightarrow> table list) \<Rightarrow> vse_module list \<Rightarrow> string Transaction list" where
  "module_strategy tables_of modules =
     concat (map (\<lambda>m. if view m = Some ''transactions''
                       then concat (map parse_transaction_table (tables_of m)) else []) modules)"

definition header_sniff_strategy :: "table list \<Rightarrow> string Transaction list" where
  "header_sniff_strategy tables =
     concat (map parse_transaction_table (filter looks_like_transactions tables))"

definition example_table :: table where
  \<comment> \<open>the table of the end-to-end example: a header and one data row\<close>
  "example_table =
     [[[''Symbol''], [''Order Date''], [''Transaction Date''], [''Type''], [''Amount''], [''Price'']],
      [[''AAPL''], [''7/9/25 10:45a ET''], [''7/9/25 10:46a ET''], [''Buy''], [''100''], [''$150.00'']]]"

definition example_page :: soup where
  \<comment> \<open>a page whose one table is found by every table strategy\<close>
  "example_page =
     \<lparr> script_strings = [Some ''var orders = {};'', None],
       exact_class_table = Some example_table,
       loose_class_table = None,
       loose_class_divs = [[''orders'']],
       vse_modules = [\<lparr> view = Some ''transactions'', primary_tables = [example_table],
                        all_tables = [example_table] \<rparr>],
       primary_or_ranking_tables = [example_table] \<rparr>"

section \<open>The CSV path\<close>

text \<open>
  \<open>csv.DictReader\<close> yields one dictionary per line, from the column names to the fields;
  a field missing at the end of a short line is \<open>None\<close>. The reader may also raise in
  the middle of the iteration. The input of the parser is therefore the list of what the
  iteration yields: a row, or the error raised in its place.
\<close>

type_synonym csv_row = "string \<rightharpoonup> string option"

definition dict_get :: "csv_row \<Rightarrow> string \<Rightarrow> string \<Rightarrow> string option" where
  \<comment> \<open>\<open>row.get(key, default)\<close>: the default only when the key is absent\<close>
  "dict_get r key dflt = (case r key of None \<Rightarrow> Some dflt | Some v \<Rightarrow> v)"

definition csv_amount :: "csv_row \<Rightarrow> py_error + int" where
  \<comment> \<open>the amount expression; \<open>None.replace\<close> raises AttributeError\<close>
  "csv_amount r =
     (case dict_get r ''Amount'' ''0'' of
        None \<Rightarrow> Inl AttributeError
      | Some a \<Rightarrow> (if py_isdigit (py_replace '','' '''' a) then py_int (py_replace '','' '''' a)
                   else Inr 0))"

definition csv_transaction :: "csv_row \<Rightarrow> py_error + string option Transaction" where
  "csv_transaction r =
     (case csv_amount r of
        Inl e \<Rightarrow> Inl e
      | Inr n \<Rightarrow> Inr \<lparr> symbol = dict_get r ''Symbol'' '''',
                      order_date = dict_get r ''Order Date/Time'' '''',
                      transaction_date = dict_get r ''Transaction Date/Time'' '''',
                      action = dict_get r ''Type'' '''',
                      amount = n,
                      price = dict_get r ''Ex. Price'' '''',
                      status = ''Completed'' \<rparr>)"

fun csv_loop ::
  "string option Transaction list \<Rightarrow> (py_error + csv_row) list \<Rightarrow> py_error + string option Transaction list" where
  "csv_loop transactions [] = Inr transactions"
| "csv_loop transactions (Inl e # items) = Inl e"
| "csv_loop transactions (Inr r # items) =
     (case csv_transaction r of
        Inl e \<Rightarrow> Inl e
      | Inr t \<Rightarrow> csv_loop (transactions @ [t]) items)"

definition parse_transactions_csv :: "(py_error + csv_row) list \<Rightarrow> string option Transaction list" where
  \<comment> \<open>\<open>_parse_transactions_csv\<close>: \<open>except Exception: return []\<close>\<close>
  "parse_transactions_csv items =
     (case csv_loop [] items of Inl e \<Rightarrow> [] | Inr transactions \<Rightarrow> transactions)"

definition example_csv_row :: csv_row where
  \<comment> \<open>a canceled order as a CSV line\<close>
  "example_csv_row =
     [''Symbol'' \<mapsto> Some ''AAPL'', ''Order Date/Time'' \<mapsto> Some ''7/9/25 10:45a ET'',
      ''Transaction Date/Time'' \<mapsto> Some ''N/A'', ''Type'' \<mapsto> Some ''Buy Canceled'',
      ''Amount'' \<mapsto> Some ''1,000'', ''Ex. Price'' \<mapsto> Some ''N/A'']"

section \<open>The timestamp normalizer\<close>

text \<open>
  A \<open>datetime\<close> is the tuple (year, month, day, hour, minute), compared
  lexicographically, which is the chronological order; seconds are always 0 here.
\<close>

type_synonym datetime = "nat \<times> nat \<times> nat \<times> nat \<times> nat"

definition datetime_min :: datetime where
  \<comment> \<open>\<open>datetime.min\<close>: 0001-01-01 00:00\<close>
  "datetime_min = (1, 1, 1, 0, 0)"

text \<open>
  \<open>datetime.strptime(s, "%Y-%m-%d %I:%M %p")\<close> compiles the format into the regular
  expression
  \<^verbatim>\<open>(\d\d\d\d)-(1[0-2]|0[1-9]|[1-9])-(3[0-1]|[1-2]\d|0[1-9]|[1-9]| [1-9])\s+(1[0-2]|0[1-9]|[1-9]):([0-5]\d|\d)\s+(am|pm)\<close>,
  case-insensitive (AM/PM names of the C and English locales), matches it at the start
  of \<open>s\<close>, and refuses a match that does not reach the end of \<open>s\<close>. Each piece of the
  expression is a function from the text to the list of its ways to match, in the order
  a backtracking matcher tries them: the matched text and what is left.
\<close>

type_synonym matcher = "string \<Rightarrow> (string \<times> string) list"

definition one_of :: "(char \<Rightarrow> bool) \<Rightarrow> matcher" where
  "one_of p s = (case s of a # r \<Rightarrow> (if p a then [([a], r)] else []) | _ \<Rightarrow> [])"

definition two_of :: "(char \<Rightarrow> bool) \<Rightarrow> (char \<Rightarrow> bool) \<Rightarrow> matcher" where
  "two_of p q s = (case s of a # b # r \<Rightarrow> (if p a \<and> q b then [([a, b], r)] else []) | _ \<Rightarrow> [])"

definition in_range :: "char \<Rightarrow> char \<Rightarrow> char \<Rightarrow> bool" where
  \<comment> \<open>a character class \<open>[lo-hi]\<close>\<close>
  "in_range lo hi c = ((of_char lo :: nat) \<le> of_char c \<and> (of_char c :: nat) \<le> of_char hi)"

definition re_Y :: matcher where
  "re_Y s = (case s of a # b # c # d # r \<Rightarrow>
               (if list_all ascii_digit [a, b, c, d] then [([a, b, c, d], r)] else [])
             | _ \<Rightarrow> [])"

definition re_m :: matcher where
  "re_m s = two_of ((=) CHR ''1'') (in_range CHR ''0'' CHR ''2'') s
          @ two_of ((=) CHR ''0'') (in_range CHR ''1'' CHR ''9'') s
          @ one_of (in_range CHR ''1'' CHR ''9'') s"

definition re_d :: matcher where
  "re_d s = two_of ((=) CHR ''3'') (in_range CHR ''0'' CHR ''1'') s
          @ two_of (in_range CHR ''1'' CHR ''2'') ascii_digit s
          @ two_of ((=) CHR ''0'') (in_range CHR ''1'' CHR ''9'') s
          @ one_of (in_range CHR ''1'' CHR ''9'') s
          @ two_of ((=) CHR '' '') (in_range CHR ''1'' CHR ''9'') s"

definition re_I :: matcher where
  "re_I s = two_of ((=) CHR ''1'') (in_range CHR ''0'' CHR ''2'') s
          @ two_of ((=) CHR ''0'') (in_range CHR ''1'' CHR ''9'') s
          @ one_of (in_range CHR ''1'' CHR ''9'') s"

definition re_M :: matcher where
  "re_M s = two_of (in_range CHR ''0'' CHR ''5'') ascii_digit s @ one_of ascii_digit s"

definition re_p :: matcher where
  "re_p s = two_of (\<lambda>c. c = CHR ''a'' \<or> c = CHR ''A'') (\<lambda>c. c = CHR ''m'' \<or> c = CHR ''M'') s
          @ two_of (\<lambda>c. c = CHR ''p'' \<or> c = CHR ''P'') (\<lambda>c. c = CHR ''m'' \<or> c = CHR ''M'') s"

definition re_spaces :: matcher where
  \<comment> \<open>\<open>\s+\<close>, greedy: the longest run first, then the shorter ones\<close>
  "re_spaces s = map (\<lambda>k. (take k s, drop k s)) (rev [1 ..< Suc (length (takeWhile py_isspace s))])"

definition re_match :: "string \<Rightarrow> (string \<times> string \<times> string \<times> string \<times> string \<times> string \<times> string) list" where
  \<comment> \<open>the matches of the whole expression: the six groups and the text left over\<close>
  "re_match s =
     [(Y, m, d, I, M, p, rest).
        (Y, s1) \<leftarrow> re_Y s, (x1, s2) \<leftarrow> one_of ((=) CHR ''-'') s1,
        (m, s3) \<leftarrow> re_m s2, (x2, s4) \<leftarrow> one_of ((=) CHR ''-'') s3,
        (d, s5) \<leftarrow> re_d s4, (x3, s6) \<leftarrow> re_spaces s5,
        (I, s7) \<leftarrow> re_I s6, (x4, s8) \<leftarrow> one_of ((=) CHR '':'') s7,
        (M, s9) \<leftarrow> re_M s8, (x5, s10) \<leftarrow> re_spaces s9,
        (p, rest) \<leftarrow> re_p s10]"

definition is_leap :: "nat \<Rightarrow> bool" where
  "is_leap y = (y mod 4 = 0 \<and> (y mod 100 \<noteq> 0 \<or> y mod 400 = 0))"

definition days_in_month :: "nat \<Rightarrow> nat \<Rightarrow> nat" where
  "days_in_month y m =
     (if m = 2 then (if is_leap y then 29 else 28)
      else if m = 4 \<or> m = 6 \<or> m = 9 \<or> m = 11 then 30 else 31)"

definition group_int :: "string \<Rightarrow> nat" where
  \<comment> \<open>\<open>int\<close> of a matched group: digits, after a space in the last alternative of the day\<close>
  "group_int g = decimal_value (dropWhile py_isspace g)"

definition strptime :: "string \<Rightarrow> py_error + datetime" where
  \<comment> \<open>the first match decides; the hour follows the 12-hour clock; the date must exist\<close>
  "strptime s =
     (case re_match s of
        [] \<Rightarrow> Inl ValueError
      | (Y, m, d, I, M, p, rest) # _ \<Rightarrow>
          (if rest \<noteq> [] then Inl ValueError
           else let year = group_int Y; month = group_int m; day = group_int d;
                    hour12 = group_int I; minute = group_int M;
                    is_am = (hd p = CHR ''a'' \<or> hd p = CHR ''A'');
                    hour = (if is_am then (if hour12 = 12 then 0 else hour12)
                            else (if hour12 \<noteq> 12 then hour12 + 12 else hour12))
                in if 1 \<le> year \<and> 1 \<le> month \<and> month \<le> 12 \<and> 1 \<le> day
                      \<and> day \<le> days_in_month year month
                   then Inr (year, month, day, hour, minute)
                   else Inl ValueError))"

definition parse_date_try :: "string \<Rightarrow> py_error + datetime" where
  \<comment> \<open>the body of the \<open>try\<close> in \<open>parse_date\<close>; unpacking a split into the wrong number
      of names raises ValueError\<close>
  "parse_date_try date_str =
     (if date_str = [] \<or> py_strip date_str = [] then Inr datetime_min
      else
        (case py_split_on CHR '' '' (py_strip (py_replace '' ET'' '''' date_str)) of
           [date_part, time_part] \<Rightarrow>
             (case py_split_on CHR ''/'' date_part of
                [month, day, year] \<Rightarrow>
                  strptime ((''20'' @ year) @ ''-'' @ py_zfill2 month @ ''-'' @ py_zfill2 day
                            @ '' '' @ py_replace ''p'' '' PM'' (py_replace ''a'' '' AM'' time_part))
              | _ \<Rightarrow> Inl ValueError)
         | _ \<Rightarrow> Inl ValueError))"

definition parse_date :: "string \<Rightarrow> datetime" where
  \<comment> \<open>\<open>except Exception: return datetime.min\<close>\<close>
  "parse_date date_str = (case parse_date_try date_str of Inr d \<Rightarrow> d | Inl e \<Rightarrow> datetime_min)"

section \<open>The feed assembler\<close>

text \<open>
  The float fields of a competitor are only carried, never computed with: their type is
  the parameter \<open>'v\<close>.
\<close>

record 'v Competitor =
  public_id :: string
  name :: string
  rank :: int
  portfolio_value :: 'v
  return_percentage :: 'v
  return_dollars :: 'v
  transactions :: "string Transaction list"
  last_updated :: datetime

text \<open>An activity is the dictionary built in the loop; its keys are the fields.\<close>

record 'v Activity =
  timestamp :: string
  player_name :: string
  player_rank :: int
  item_action :: string
  item_symbol :: string
  item_amount :: int
  item_price :: string
  item_portfolio_value :: 'v

definition collect_activities :: "'v Competitor list \<Rightarrow> 'v Activity list" where
  \<comment> \<open>the two nested loops: \<open>continue\<close> on a canceled transaction, \<open>append\<close> otherwise\<close>
  "collect_activities competitors =
     foldl (\<lambda>activities competitor.
              foldl (\<lambda>acts transaction.
                       if status transaction = ''Canceled'' then acts
                       else acts @ [\<lparr> timestamp = order_date transaction,
                                      player_name = name competitor,
                                      player_rank = rank competitor,
                                      item_action = action transaction,
                                      item_symbol = symbol transaction,
                                      item_amount = amount transaction,
                                      item_price = price transaction,
                                      item_portfolio_value = portfolio_value competitor \<rparr>])
                    activities (transactions competitor))
           [] competitors"

primrec insert_desc :: "('a \<Rightarrow> datetime) \<Rightarrow> 'a \<Rightarrow> 'a list \<Rightarrow> 'a list" where
  "insert_desc key x [] = [x]"
| "insert_desc key x (y # ys) =
     (if key y \<le> key x then x # y # ys else y # insert_desc key x ys)"

definition sort_reverse :: "('a \<Rightarrow> datetime) \<Rightarrow> 'a list \<Rightarrow> 'a list" where
  \<comment> \<open>\<open>list.sort(key=key, reverse=True)\<close>: Python's sort is stable, also when reversed, and
      a stable sort has one possible result, which insertion from the right computes\<close>
  "sort_reverse key xs = foldr (insert_desc key) xs []"

definition create_activity_feed :: "'v Competitor list \<Rightarrow> 'v Activity list" where
  "create_activity_feed competitors =
     sort_reverse (\<lambda>x. parse_date (timestamp x)) (collect_activities competitors)"

definition example_competitor :: "int Competitor" where
  \<comment> \<open>one competitor with the three order dates of the sort example\<close>
  "example_competitor =
     \<lparr> public_id = ''p1'', name = ''Ann'', rank = 1, portfolio_value = 100,
       return_percentage = 0, return_dollars = 0,
       transactions =
         [example_buy_first,
          example_buy_first \<lparr> order_date := ''7/8/25 9:00a ET'' \<rparr>,
          example_buy_first \<lparr> order_date := ''7/9/25 2:00p ET'' \<rparr>],
       last_updated = (2025, 7, 10, 0, 0) \<rparr>"

section \<open>Properties of the deduplicator\<close>

lemma dedup_loop_nths:
  "dedup_loop seen u ts =
     u @ nths ts {i. identity_key (ts ! i) \<notin> seen \<and> (\<forall>j<i. identity_key (ts ! j) \<noteq> identity_key (ts ! i))}"
proof (induction ts arbitrary: seen u)
  case Nil
  show ?case by simp
next
  case (Cons t ts)
  let ?A = "\<lambda>S l. {i. identity_key (l ! i) \<notin> S \<and> (\<forall>j<i. identity_key (l ! j) \<noteq> identity_key (l ! i))}"
  have shift: "{j. Suc j \<in> ?A seen (t # ts)} =
               {i. identity_key (ts ! i) \<notin> seen \<and> identity_key t \<noteq> identity_key (ts ! i)
                    \<and> (\<forall>j<i. identity_key (ts ! j) \<noteq> identity_key (ts ! i))}"
    by (auto simp: less_Suc_eq_0_disj)
  show ?case
  proof (cases "identity_key t \<in> seen")
    case True
    then have "{j. Suc j \<in> ?A seen (t # ts)} = ?A seen ts"
      unfolding shift by auto
    with True show ?thesis
      by (simp add: Cons.IH nths_Cons)
  next
    case False
    then have "{j. Suc j \<in> ?A seen (t # ts)} = ?A (insert (identity_key t) seen) ts"
      unfolding shift by auto
    with False show ?thesis
      by (simp add: Cons.IH nths_Cons)
  qed
qed

lemma dedup_loop_keys:
  "set (map identity_key (dedup_loop seen u ts)) = set (map identity_key u) \<union> (set (map identity_key ts) - seen)"
  by (induction ts arbitrary: seen u) auto

lemma dedup_loop_distinct:
  "distinct (map identity_key u) \<Longrightarrow> set (map identity_key u) \<subseteq> seen \<Longrightarrow>
   distinct (map identity_key (dedup_loop seen u ts))"
proof (induction ts arbitrary: seen u)
  case Nil
  then show ?case by simp
next
  case (Cons a ts)
  show ?case
  proof (cases "identity_key a \<in> seen")
    case True
    then show ?thesis using Cons.IH [OF Cons.prems] by simp
  next
    case False
    have d: "distinct (map identity_key (u @ [a]))"
      using Cons.prems False by auto
    have s: "set (map identity_key (u @ [a])) \<subseteq> insert (identity_key a) seen"
      using Cons.prems(2) by auto
    from False show ?thesis using Cons.IH [OF d s] by simp
  qed
qed

lemma dedup_loop_first:
  "t \<in> set (dedup_loop seen u ts) \<Longrightarrow> t \<notin> set u \<Longrightarrow> set (map identity_key u) \<subseteq> seen \<Longrightarrow>
   find (\<lambda>x. identity_key x = identity_key t) ts = Some t"
proof (induction ts arbitrary: seen u)
  case Nil
  then show ?case by simp
next
  case (Cons a ts)
  show ?case
  proof (cases "identity_key a \<in> seen")
    case True
    with Cons.prems have mem: "t \<in> set (dedup_loop seen u ts)" by simp
    from Cons.IH [OF mem Cons.prems(2) Cons.prems(3)]
    have f: "find (\<lambda>x. identity_key x = identity_key t) ts = Some t" .
    have "identity_key t \<in> set (map identity_key (dedup_loop seen u ts))"
      using mem by (simp add: image_iff) blast
    then have "identity_key t \<in> set (map identity_key u) \<union> (set (map identity_key ts) - seen)"
      by (simp only: dedup_loop_keys)
    moreover have "identity_key t \<notin> set (map identity_key u)"
    proof
      assume "identity_key t \<in> set (map identity_key u)"
      then have "identity_key t \<in> seen" using Cons.prems(3) by blast
      moreover from f have "t \<in> set ts" by (auto simp: find_Some_iff)
      ultimately show False
        using mem Cons.prems(2) dedup_loop_nths [of seen u ts]
        by (auto dest!: in_set_nthsD simp: set_nths)
    qed
    ultimately have "identity_key t \<notin> seen" by blast
    with True have "identity_key a \<noteq> identity_key t" by auto
    with f show ?thesis by simp
  next
    case False
    with Cons.prems have mem: "t \<in> set (dedup_loop (insert (identity_key a) seen) (u @ [a]) ts)"
      by simp
    show ?thesis
    proof (cases "t = a")
      case True
      then show ?thesis by simp
    next
      case ne: False
      have sub: "set (map identity_key (u @ [a])) \<subseteq> insert (identity_key a) seen"
        using Cons.prems(3) by auto
      have notin: "t \<notin> set (u @ [a])" using Cons.prems(2) ne by simp
      from Cons.IH [OF mem notin sub]
      have f: "find (\<lambda>x. identity_key x = identity_key t) ts = Some t" .
      have "t \<in> set (nths ts {i. identity_key (ts ! i) \<notin> insert (identity_key a) seen
                \<and> (\<forall>j<i. identity_key (ts ! j) \<noteq> identity_key (ts ! i))})"
        using mem notin by (simp only: dedup_loop_nths [of "insert (identity_key a) seen"]) auto
      then have "identity_key t \<noteq> identity_key a"
        by (auto simp: set_nths)
      with f show ?thesis by simp
    qed
  qed
qed

lemma dedup_loop_id:
  "distinct (map identity_key ts) \<Longrightarrow> set (map identity_key ts) \<inter> seen = {} \<Longrightarrow>
   dedup_loop seen u ts = u @ ts"
  by (induction ts arbitrary: seen u) auto

text \<open>
  C1. The deduplicator returns the records at the positions where an identity key
  \<open>(symbol, order_date, action, amount)\<close> occurs for the first time, in input order: one
  record per distinct key, no key lost, and each returned record is the first-seen record
  of its key, whole, whatever the price, transaction date or status of the later ones.
\<close>

theorem dedup_first_occurrences:
  "dedup T = nths T {i. \<forall>j<i. identity_key (T ! j) \<noteq> identity_key (T ! i)}
   \<and> distinct (map identity_key (dedup T))
   \<and> set (map identity_key (dedup T)) = set (map identity_key T)
   \<and> (\<forall>t \<in> set (dedup T). find (\<lambda>x. identity_key x = identity_key t) T = Some t)"
proof (intro conjI ballI)
  show "dedup T = nths T {i. \<forall>j<i. identity_key (T ! j) \<noteq> identity_key (T ! i)}"
    by (simp add: dedup_def dedup_loop_nths)
  show "distinct (map identity_key (dedup T))"
    unfolding dedup_def by (rule dedup_loop_distinct) simp_all
  show "set (map identity_key (dedup T)) = set (map identity_key T)"
    unfolding dedup_def by (simp only: dedup_loop_keys) simp
next
  fix t assume "t \<in> set (dedup T)"
  then show "find (\<lambda>x. identity_key x = identity_key t) T = Some t"
    unfolding dedup_def by (rule dedup_loop_first) simp_all
qed

theorem dedup_first_occurrences_witness:
  "example_buy_first \<in> set (dedup [example_buy_first, example_buy_second])
   \<and> dedup [example_buy_first, example_buy_second] = [example_buy_first]
   \<and> find (\<lambda>x. identity_key x = identity_key example_buy_first)
        [example_buy_first, example_buy_second] = Some example_buy_first
   \<and> price example_buy_first = ''$150.00''"
proof -
  have d: "dedup [example_buy_first, example_buy_second] = [example_buy_first]"
    by (simp add: dedup_def identity_key_def example_buy_first_def example_buy_second_def)
  have m: "example_buy_first \<in> set (dedup [example_buy_first, example_buy_second])"
    by (simp add: d)
  from dedup_first_occurrences [of "[example_buy_first, example_buy_second]"] m
  have "find (\<lambda>x. identity_key x = identity_key example_buy_first)
          [example_buy_first, example_buy_second] = Some example_buy_first"
    by blast
  with d m show ?thesis by (simp add: example_buy_first_def)
qed

text \<open>
  C8. Deduplication is idempotent: deduplicating an already deduplicated list changes
  nothing.
\<close>

theorem dedup_idempotent: "dedup (dedup T) = dedup T"
proof -
  have "distinct (map identity_key (dedup T))"
    unfolding dedup_def by (rule dedup_loop_distinct) simp_all
  then have "dedup_loop {} [] (dedup T) = [] @ dedup T"
    by (rule dedup_loop_id) simp
  then show ?thesis by (simp add: dedup_def)
qed

section \<open>Properties of the row parser\<close>

lemma parse_transaction_table_concat:
  "parse_transaction_table rows = concat (map parse_row (drop 1 rows))"
proof -
  have "foldl (\<lambda>acc r. acc @ parse_row r) a rs = a @ concat (map parse_row rs)" for a rs
    by (induction rs arbitrary: a) simp_all
  then show ?thesis by (simp add: parse_transaction_table_def)
qed

lemma parse_row_cases:
  assumes "parse_row cells = [t]"
  obtains c0 c1 c2 c3 c4 c5 rest n where
    "cells = c0 # c1 # c2 # c3 # c4 # c5 # rest"
    "parse_amount (py_replace '','' '''' (get_text_strip c4)) = Inr n"
    "t = \<lparr> symbol = get_text_strip c0, order_date = get_text_strip c1,
           transaction_date = get_text_strip c2,
           action = fst (parse_action (get_text_strip c3)), amount = n,
           price = get_text_strip c5,
           status = snd (parse_action (get_text_strip c3)) \<rparr>"
  using assms
  by (auto simp: parse_row_def parse_row_try_def Let_def
           split: if_splits list.splits sum.splits prod.splits)

lemma parse_row_try_errors:
  "parse_row_try cells = Inl e \<Longrightarrow> e = ValueError \<or> e = IndexError"
  by (auto simp: parse_row_try_def parse_amount_def py_int_def Let_def
           split: list.splits prod.splits sum.splits if_splits)

lemma parse_row_length: "length (parse_row cells) \<le> 1"
  by (simp add: parse_row_def split: sum.splits)

lemma parse_row_take6: "6 \<le> length cells \<Longrightarrow> parse_row (take 6 cells) = parse_row cells"
  by (auto simp: parse_row_def parse_row_try_def Let_def min_def
           split: list.splits sum.splits prod.splits)

lemma split_ws_from_hd:
  "cur \<noteq> [] \<or> (\<exists>c \<in> set s. \<not> py_isspace c) \<Longrightarrow>
   split_ws_from cur s \<noteq> [] \<and>
   hd (split_ws_from cur s) =
     (if cur = [] then takeWhile (\<lambda>c. \<not> py_isspace c) (dropWhile py_isspace s)
      else cur @ takeWhile (\<lambda>c. \<not> py_isspace c) s)"
proof (induction s arbitrary: cur)
  case Nil
  then show ?case by simp
next
  case (Cons a s)
  show ?case
  proof (cases "py_isspace a")
    case True
    show ?thesis
    proof (cases "cur = []")
      case True
      with Cons.prems \<open>py_isspace a\<close> have "\<exists>c \<in> set s. \<not> py_isspace c" by auto
      then have "[] \<noteq> [] \<or> (\<exists>c \<in> set s. \<not> py_isspace c)" by simp
      from Cons.IH [OF this] True \<open>py_isspace a\<close> show ?thesis by simp
    next
      case False
      with \<open>py_isspace a\<close> show ?thesis by simp
    qed
  next
    case False
    have "cur @ [a] \<noteq> [] \<or> (\<exists>c \<in> set s. \<not> py_isspace c)" by simp
    from Cons.IH [OF this] False show ?thesis by simp
  qed
qed

lemma sublist_Canceled_nonspace:
  assumes "sublist ''Canceled'' s"
  shows "\<exists>c \<in> set s. \<not> py_isspace c"
proof -
  from assms obtain ps ss where "s = ps @ ''Canceled'' @ ss" by (auto simp: sublist_def)
  then have "CHR ''C'' \<in> set s" by simp
  moreover have "\<not> py_isspace CHR ''C''" by (simp add: py_isspace_def)
  ultimately show ?thesis by blast
qed

lemma parse_action_eq:
  "parse_action txt =
     (if sublist ''Canceled'' txt
      then (takeWhile (\<lambda>c. \<not> py_isspace c) (dropWhile py_isspace txt), ''Canceled'')
      else (txt, ''Completed''))"
proof (cases "sublist ''Canceled'' txt")
  case True
  then have "[] \<noteq> ([]::string) \<or> (\<exists>c \<in> set txt. \<not> py_isspace c)"
    using sublist_Canceled_nonspace by simp
  from split_ws_from_hd [OF this] True show ?thesis
    by (simp add: parse_action_def py_contains_def py_split_def)
next
  case False
  then show ?thesis by (simp add: parse_action_def py_contains_def)
qed

lemma parse_amount_decimal:
  "list_all (\<lambda>c. c \<noteq> CHR 0xB2 \<and> c \<noteq> CHR 0xB3 \<and> c \<noteq> CHR 0xB9) s \<Longrightarrow>
   parse_amount s = Inr (if s \<noteq> [] \<and> list_all ascii_digit s then int (decimal_value s) else 0)"
proof -
  assume a: "list_all (\<lambda>c. c \<noteq> CHR 0xB2 \<and> c \<noteq> CHR 0xB3 \<and> c \<noteq> CHR 0xB9) s"
  have "py_isdigit_char c = ascii_digit c"
    if "c \<noteq> CHR 0xB2 \<and> c \<noteq> CHR 0xB3 \<and> c \<noteq> CHR 0xB9" for c
  proof -
    have "(of_char c :: nat) \<noteq> of_char (CHR 0xB2)" "(of_char c :: nat) \<noteq> of_char (CHR 0xB3)"
         "(of_char c :: nat) \<noteq> of_char (CHR 0xB9)"
      using that by (simp_all only: of_char_eq_iff not_False_eq_True)
    then have "(of_char c :: nat) \<noteq> 178" "(of_char c :: nat) \<noteq> 179" "(of_char c :: nat) \<noteq> 185"
      by simp_all
    then show ?thesis by (simp add: py_isdigit_char_def ascii_digit_def)
  qed
  with a have "list_all py_isdigit_char s = list_all ascii_digit s"
    by (induction s) auto
  then show ?thesis by (simp add: parse_amount_def py_isdigit_def py_int_def)
qed

text \<open>
  C5. A row with fewer than 6 cells appends nothing. A row with 6 cells or more appends at
  most one record, the one its first six cells give; the table parser appends, row after
  row below the header, what each row gives.
\<close>

theorem parse_row_cell_count:
  "(length cells < 6 \<longrightarrow> parse_row cells = [])
   \<and> (6 \<le> length cells \<longrightarrow>
        length (parse_row cells) \<le> 1 \<and> parse_row cells = parse_row (take 6 cells))
   \<and> parse_transaction_table (header # rows) = concat (map parse_row rows)"
proof (intro conjI impI)
  assume "length cells < 6"
  then show "parse_row cells = []" by (simp add: parse_row_def)
next
  show "length (parse_row cells) \<le> 1" by (rule parse_row_length)
next
  assume "6 \<le> length cells"
  then show "parse_row cells = parse_row (take 6 cells)" by (simp add: parse_row_take6)
next
  show "parse_transaction_table (header # rows) = concat (map parse_row rows)"
    by (simp add: parse_transaction_table_concat)
qed

theorem parse_row_cell_count_witness:
  "length example_short_row < 6 \<and> parse_row example_short_row = []
   \<and> 6 \<le> length example_row
   \<and> parse_row example_row = parse_row (take 6 example_row)
   \<and> parse_row example_row =
       [\<lparr> symbol = ''AAPL'', order_date = ''7/9/25 10:45a ET'',
           transaction_date = ''7/9/25 10:46a ET'', action = ''Buy'', amount = 100,
           price = ''$150.00'', status = ''Completed'' \<rparr>]"
proof -
  have s: "length example_short_row < 6" by (simp add: example_short_row_def)
  have l: "6 \<le> length example_row" by (simp add: example_row_def)
  have v: "parse_row example_row =
       [\<lparr> symbol = ''AAPL'', order_date = ''7/9/25 10:45a ET'',
           transaction_date = ''7/9/25 10:46a ET'', action = ''Buy'', amount = 100,
           price = ''$150.00'', status = ''Completed'' \<rparr>]"
    by code_simp
  from parse_row_cell_count [of example_short_row] parse_row_cell_count [of example_row] s l v
  show ?thesis by simp
qed

text \<open>
  C6, at the input where the code leaves it. The amount text made of the single character
  U+00B2 (SUPERSCRIPT TWO) has no comma and satisfies \<open>isdigit\<close>, so it is passed to
  \<open>int\<close>, which raises ValueError: the amount is not 0, and the row handler drops the row.
\<close>

theorem parse_amount_superscript_raises:
  "py_isdigit (py_replace '','' '''' [CHR 0xB2])
   \<and> parse_amount (py_replace '','' '''' [CHR 0xB2]) = Inl ValueError
   \<and> parse_row example_superscript_row = []"
  by code_simp

text \<open>
  C7. In a parsed record, when the action cell's trimmed text contains \<open>Canceled\<close> the
  status is \<open>Canceled\<close> and the action is the first whitespace-delimited token of that
  text; otherwise the status is \<open>Completed\<close> and the action is the whole trimmed text.
\<close>

theorem parse_row_action_status:
  assumes "parse_row cells = [t]"
  shows "(if sublist ''Canceled'' (get_text_strip (cells ! 3))
          then status t = ''Canceled'' \<and>
               action t = takeWhile (\<lambda>c. \<not> py_isspace c)
                            (dropWhile py_isspace (get_text_strip (cells ! 3)))
          else status t = ''Completed'' \<and> action t = get_text_strip (cells ! 3))"
proof -
  from assms obtain c0 c1 c2 c3 c4 c5 rest n where
    c: "cells = c0 # c1 # c2 # c3 # c4 # c5 # rest" and
    t: "t = \<lparr> symbol = get_text_strip c0, order_date = get_text_strip c1,
           transaction_date = get_text_strip c2,
           action = fst (parse_action (get_text_strip c3)), amount = n,
           price = get_text_strip c5,
           status = snd (parse_action (get_text_strip c3)) \<rparr>"
    by (rule parse_row_cases)
  have "cells ! 3 = c3" by (simp add: c)
  then show ?thesis by (simp add: t parse_action_eq)
qed

theorem parse_row_action_status_witness:
  "parse_row example_canceled_row =
     [\<lparr> symbol = ''AAPL'', order_date = ''7/9/25 10:45a ET'', transaction_date = ''N/A'',
         action = ''Sell'', amount = 1000, price = ''N/A'', status = ''Canceled'' \<rparr>]
   \<and> sublist ''Canceled'' (get_text_strip (example_canceled_row ! 3))
   \<and> takeWhile (\<lambda>c. \<not> py_isspace c)
        (dropWhile py_isspace (get_text_strip (example_canceled_row ! 3))) = ''Sell''
   \<and> parse_row example_row =
     [\<lparr> symbol = ''AAPL'', order_date = ''7/9/25 10:45a ET'',
         transaction_date = ''7/9/25 10:46a ET'', action = ''Buy'', amount = 100,
         price = ''$150.00'', status = ''Completed'' \<rparr>]
   \<and> \<not> sublist ''Canceled'' (get_text_strip (example_row ! 3))
   \<and> get_text_strip (example_row ! 3) = ''Buy''"
proof -
  have a: "parse_row example_canceled_row =
     [\<lparr> symbol = ''AAPL'', order_date = ''7/9/25 10:45a ET'', transaction_date = ''N/A'',
         action = ''Sell'', amount = 1000, price = ''N/A'', status = ''Canceled'' \<rparr>]"
    by code_simp
  have b: "parse_row example_row =
     [\<lparr> symbol = ''AAPL'', order_date = ''7/9/25 10:45a ET'',
         transaction_date = ''7/9/25 10:46a ET'', action = ''Buy'', amount = 100,
         price = ''$150.00'', status = ''Completed'' \<rparr>]"
    by code_simp
  have c: "sublist ''Canceled'' (get_text_strip (example_canceled_row ! 3))"
    by code_simp
  have d: "\<not> sublist ''Canceled'' (get_text_strip (example_row ! 3))"
    by code_simp
  have e: "get_text_strip (example_row ! 3) = ''Buy''"
    by code_simp
  from parse_row_action_status [OF a] parse_row_action_status [OF b] a b c d e
  show ?thesis by simp
qed

section \<open>Properties of the timestamp normalizer\<close>






lemma parse_date_without_suffix:
  "parse_date ''7/9/25 10:45a'' = (2025, 7, 9, 10, 45)"
  by code_simp





section \<open>Properties of the feed assembler\<close>

lemma collect_activities_concat:
  "collect_activities cs =
     concat (map (\<lambda>c. concat (map (\<lambda>t. if status t \<noteq> ''Canceled''
         then [\<lparr> timestamp = order_date t, player_name = name c, player_rank = rank c,
                  item_action = action t, item_symbol = symbol t, item_amount = amount t,
                  item_price = price t, item_portfolio_value = portfolio_value c \<rparr>]
         else []) (transactions c))) cs)"
proof -
  let ?item = "\<lambda>c t. \<lparr> timestamp = order_date t, player_name = name c, player_rank = rank c,
                  item_action = action t, item_symbol = symbol t, item_amount = amount t,
                  item_price = price t, item_portfolio_value = portfolio_value c \<rparr>"
  have inner: "foldl (\<lambda>acts t. if status t = ''Canceled'' then acts else acts @ [?item c t]) a ts
        = a @ concat (map (\<lambda>t. if status t \<noteq> ''Canceled'' then [?item c t] else []) ts)"
    for a c and ts :: "string Transaction list"
    by (induction ts arbitrary: a) simp_all
  have outer: "foldl (\<lambda>activities c.
                 foldl (\<lambda>acts t. if status t = ''Canceled'' then acts else acts @ [?item c t])
                   activities (transactions c)) a cs
        = a @ concat (map (\<lambda>c. concat (map (\<lambda>t. if status t \<noteq> ''Canceled'' then [?item c t] else [])
                 (transactions c))) cs)" for a
    by (induction cs arbitrary: a) (simp_all add: inner)
  show ?thesis unfolding collect_activities_def by (rule outer [of "[]", simplified])
qed

lemma mset_insert_desc: "mset (insert_desc key x xs) = add_mset x (mset xs)"
  by (induction xs) simp_all

lemma mset_sort_reverse: "mset (sort_reverse key xs) = mset xs"
  by (induction xs) (simp_all add: sort_reverse_def mset_insert_desc)

lemma set_insert_desc: "set (insert_desc key x xs) = insert x (set xs)"
  by (induction xs) auto

lemma sorted_insert_desc:
  "sorted_wrt (\<lambda>a b. key b \<le> key a) xs \<Longrightarrow> sorted_wrt (\<lambda>a b. key b \<le> key a) (insert_desc key x xs)"
  by (induction xs) (auto simp: set_insert_desc)

lemma sorted_sort_reverse: "sorted_wrt (\<lambda>a b. key b \<le> key a) (sort_reverse key xs)"
  by (induction xs) (simp_all add: sort_reverse_def sorted_insert_desc)

lemma filter_insert_desc:
  "filter (\<lambda>y. key y = k) (insert_desc key x xs) =
     (if key x = k then x # filter (\<lambda>y. key y = k) xs else filter (\<lambda>y. key y = k) xs)"
  by (induction xs) auto

lemma sort_reverse_stable:
  "filter (\<lambda>y. key y = k) (sort_reverse key xs) = filter (\<lambda>y. key y = k) xs"
  by (induction xs) (simp_all add: sort_reverse_def filter_insert_desc)

text \<open>
  C3. The feed holds, with multiplicity, exactly one item for each transaction of each
  competitor whose status is not \<open>Canceled\<close>: the item carries the transaction's order
  date as timestamp, its action, symbol, amount and price, and the competitor's name, rank
  and portfolio value. A canceled transaction gives no item.
\<close>

theorem create_activity_feed_items:
  "mset (create_activity_feed cs) =
   mset [\<lparr> timestamp = order_date t, player_name = name c, player_rank = rank c,
            item_action = action t, item_symbol = symbol t, item_amount = amount t,
            item_price = price t, item_portfolio_value = portfolio_value c \<rparr>.
         c \<leftarrow> cs, t \<leftarrow> transactions c, status t \<noteq> ''Canceled'']"
  by (simp add: create_activity_feed_def mset_sort_reverse collect_activities_concat)

text \<open>
  C4. The feed is in descending order of \<open>parse_date\<close> of the timestamps, and the items
  with one and the same \<open>parse_date\<close> value keep the order in which the loop emitted
  them; the three order dates of the example come out newest first.
\<close>

theorem create_activity_feed_sorted:
  "sorted_wrt (\<lambda>a b. parse_date (timestamp b) \<le> parse_date (timestamp a)) (create_activity_feed cs)
   \<and> filter (\<lambda>x. parse_date (timestamp x) = k) (create_activity_feed cs)
       = filter (\<lambda>x. parse_date (timestamp x) = k) (collect_activities cs)
   \<and> map timestamp (collect_activities [example_competitor])
       = [''7/9/25 10:45a ET'', ''7/8/25 9:00a ET'', ''7/9/25 2:00p ET'']
   \<and> map timestamp (create_activity_feed [example_competitor])
       = [''7/9/25 2:00p ET'', ''7/9/25 10:45a ET'', ''7/8/25 9:00a ET'']"
proof (intro conjI)
  show "sorted_wrt (\<lambda>a b. parse_date (timestamp b) \<le> parse_date (timestamp a)) (create_activity_feed cs)"
    unfolding create_activity_feed_def by (rule sorted_sort_reverse)
  show "filter (\<lambda>x. parse_date (timestamp x) = k) (create_activity_feed cs)
       = filter (\<lambda>x. parse_date (timestamp x) = k) (collect_activities cs)"
    unfolding create_activity_feed_def by (rule sort_reverse_stable)
  show "map timestamp (collect_activities [example_competitor])
       = [''7/9/25 10:45a ET'', ''7/8/25 9:00a ET'', ''7/9/25 2:00p ET'']"
    by code_simp
  show "map timestamp (create_activity_feed [example_competitor])
       = [''7/9/25 2:00p ET'', ''7/9/25 10:45a ET'', ''7/8/25 9:00a ET'']"
    by code_simp
qed

section \<open>Properties of the locators\<close>

lemma foldl_append_each:
  "foldl (\<lambda>acc x. acc @ f x) a xs = a @ concat (map f xs)"
  by (induction xs arbitrary: a) simp_all

lemma script_step_append:
  "script_step jl a s = a @ script_step jl [] s"
  by (simp add: script_step_def split: option.splits)

lemma foldl_script_step:
  "foldl (script_step jl) a ss = a @ script_json_strategy jl ss"
proof (induction ss arbitrary: a)
  case Nil
  show ?case by (simp add: script_json_strategy_def)
next
  case (Cons s ss)
  have "foldl (script_step jl) (script_step jl a s) ss
        = script_step jl a s @ script_json_strategy jl ss"
    by (rule Cons.IH)
  also have "\<dots> = a @ script_step jl [] s @ script_json_strategy jl ss"
    by (subst script_step_append) simp
  finally show ?case by (simp add: script_json_strategy_def)
qed

lemma foldl_module_step:
  "foldl (module_step tables_of) a ms = a @ module_strategy tables_of ms"
  by (induction ms arbitrary: a)
     (simp_all add: module_strategy_def module_step_def foldl_append_each)

lemma foldl_header_sniff:
  "foldl (\<lambda>acc t. if looks_like_transactions t then acc @ parse_transaction_table t else acc) a ts
     = a @ header_sniff_strategy ts"
  by (induction ts arbitrary: a) (simp_all add: header_sniff_strategy_def)

text \<open>
  C9. Each locator returns the concatenation of what its strategies find, every strategy
  being run on its own query results whatever the others found: the script scan, the
  class-matched table, the div scan and the module tables on the single-portfolio path;
  the module tables and the header sniff on the multi-competitor path, which hands that
  concatenation to the deduplicator.
\<close>

theorem locator_concatenates_strategies:
  "mw_parse_transactions json_loads page =
     script_json_strategy json_loads (script_strings page)
     @ class_table_strategy (exact_class_table page) (loose_class_table page)
     @ div_strategy (loose_class_divs page)
     @ module_strategy all_tables (vse_modules page)
   \<and> candidate_transactions page =
     module_strategy primary_tables (vse_modules page)
     @ header_sniff_strategy (primary_or_ranking_tables page)
   \<and> parse_transactions page =
     dedup (module_strategy primary_tables (vse_modules page)
            @ header_sniff_strategy (primary_or_ranking_tables page))"
proof -
  have c: "candidate_transactions page =
     module_strategy primary_tables (vse_modules page)
     @ header_sniff_strategy (primary_or_ranking_tables page)"
    by (simp add: candidate_transactions_def foldl_module_step foldl_header_sniff)
  have m: "mw_parse_transactions json_loads page =
     script_json_strategy json_loads (script_strings page)
     @ class_table_strategy (exact_class_table page) (loose_class_table page)
     @ div_strategy (loose_class_divs page)
     @ module_strategy all_tables (vse_modules page)"
    by (simp add: mw_parse_transactions_def foldl_module_step foldl_script_step
          foldl_append_each class_table_strategy_def div_strategy_def split: option.splits)
  from c m show ?thesis by (simp add: parse_transactions_def)
qed

theorem locator_concatenates_strategies_witness:
  "class_table_strategy (exact_class_table example_page) (loose_class_table example_page)
     = [example_buy_first]
   \<and> module_strategy all_tables (vse_modules example_page) = [example_buy_first]
   \<and> mw_parse_transactions (\<lambda>s. (None :: unit option)) example_page
     = [example_buy_first, example_buy_first]
   \<and> candidate_transactions example_page = [example_buy_first, example_buy_first]
   \<and> parse_transactions example_page = [example_buy_first]"
proof -
  have a: "class_table_strategy (exact_class_table example_page) (loose_class_table example_page)
     = [example_buy_first]"
    by code_simp
  have b: "module_strategy all_tables (vse_modules example_page) = [example_buy_first]"
    by code_simp
  have c: "script_json_strategy (\<lambda>s. (None :: unit option)) (script_strings example_page) = []"
    by code_simp
  have d: "div_strategy (loose_class_divs example_page) = []"
    by code_simp
  have e: "module_strategy primary_tables (vse_modules example_page) = [example_buy_first]"
    by code_simp
  have f: "header_sniff_strategy (primary_or_ranking_tables example_page) = [example_buy_first]"
    by code_simp
  have g: "dedup [example_buy_first, example_buy_first] = [example_buy_first]"
    by (simp add: dedup_def)
  from locator_concatenates_strategies [of "\<lambda>s. (None :: unit option)" example_page]
       a b c d e f g
  show ?thesis by simp
qed

section \<open>Properties of the CSV path\<close>

lemma csv_loop_status:
  "csv_loop acc items = Inr ts \<Longrightarrow> \<forall>t \<in> set acc. status t = ''Completed'' \<Longrightarrow>
   \<forall>t \<in> set ts. status t = ''Completed''"
proof (induction acc items rule: csv_loop.induct)
  case (1 acc)
  then show ?case by simp
next
  case (2 acc e items)
  then show ?case by simp
next
  case (3 acc r items)
  from "3.prems"(1) obtain t where t: "csv_transaction r = Inr t"
    and l: "csv_loop (acc @ [t]) items = Inr ts"
    by (auto split: sum.splits)
  from t have "status t = ''Completed''"
    by (auto simp: csv_transaction_def split: sum.splits)
  with "3.prems"(2) have "\<forall>x \<in> set (acc @ [t]). status x = ''Completed''" by simp
  from "3.IH" [OF t l this] show ?case .
qed

text \<open>
  C10. Every record the CSV parser returns has the status \<open>Completed\<close>, whatever its row
  holds: the record of a row takes the \<open>Type\<close> field as its action, as it is, and the
  rule that reads \<open>Canceled\<close> off the action text is not applied. The status is thus never
  \<open>Canceled\<close>, the one status the feed assembler leaves out.
\<close>

theorem csv_status_always_completed:
  "(\<forall>t \<in> set (parse_transactions_csv items).
      status t = ''Completed'' \<and> status t \<noteq> ''Canceled'')
   \<and> (\<forall>t. csv_transaction r = Inr t \<longrightarrow>
          status t = ''Completed'' \<and> action t = dict_get r ''Type'' '''')"
proof (intro conjI ballI allI impI)
  fix t assume a: "t \<in> set (parse_transactions_csv items)"
  have "status t = ''Completed''"
  proof (cases "csv_loop [] items")
    case (Inl e)
    with a show ?thesis by (simp add: parse_transactions_csv_def)
  next
    case (Inr ts)
    with a have "t \<in> set ts" by (simp add: parse_transactions_csv_def)
    with csv_loop_status [OF Inr] show ?thesis by simp
  qed
  then show "status t = ''Completed''" "status t \<noteq> ''Canceled''" by simp_all
next
  fix t assume "csv_transaction r = Inr t"
  then show "status t = ''Completed''" "action t = dict_get r ''Type'' ''''"
    by (auto simp: csv_transaction_def split: sum.splits)
qed

theorem csv_status_always_completed_witness:
  "parse_transactions_csv [Inr example_csv_row] =
     [\<lparr> symbol = Some ''AAPL'', order_date = Some ''7/9/25 10:45a ET'',
         transaction_date = Some ''N/A'', action = Some ''Buy Canceled'', amount = 1000,
         price = Some ''N/A'', status = ''Completed'' \<rparr>]
   \<and> csv_transaction example_csv_row =
     Inr \<lparr> symbol = Some ''AAPL'', order_date = Some ''7/9/25 10:45a ET'',
         transaction_date = Some ''N/A'', action = Some ''Buy Canceled'', amount = 1000,
         price = Some ''N/A'', status = ''Completed'' \<rparr>
   \<and> dict_get example_csv_row ''Type'' '''' = Some ''Buy Canceled''
   \<and> parse_action ''Buy Canceled'' = (''Buy'', ''Canceled'')"
proof -
  have a: "csv_transaction example_csv_row =
     Inr \<lparr> symbol = Some ''AAPL'', order_date = Some ''7/9/25 10:45a ET'',
         transaction_date = Some ''N/A'', action = Some ''Buy Canceled'', amount = 1000,
         price = Some ''N/A'', status = ''Completed'' \<rparr>"
    by code_simp
  have b: "parse_transactions_csv [Inr example_csv_row] =
     [\<lparr> symbol = Some ''AAPL'', order_date = Some ''7/9/25 10:45a ET'',
         transaction_date = Some ''N/A'', action = Some ''Buy Canceled'', amount = 1000,
         price = Some ''N/A'', status = ''Completed'' \<rparr>]"
    by (simp add: parse_transactions_csv_def a)
  have c: "parse_action ''Buy Canceled'' = (''Buy'', ''Canceled'')"
    by code_simp
  from csv_status_always_completed [of "[Inr example_csv_row]" example_csv_row] a b c
  show ?thesis by simp
qed

end
